theory Spec2Isabelle
  imports Complex_Main "HOL-Library.AList"
begin

section \<open>Pseudo positioners of pcdsdevices\<close>

text \<open>
  A shallow embedding of \<^verbatim>\<open>pcdsdevices/pseudopos.py\<close>. Python floats are
  idealised as the real numbers: every arithmetic step of the source is kept, its rounding
  is not. The one exception is the subtraction that \<^verbatim>\<open>save_offsets\<close> stores:
  its result is compared for equality, so it is rounded to a double as Python rounds it.
  Exceptions are values of the type \<open>exn\<close>, which stands for the subclasses of
  Python's \<^verbatim>\<open>Exception\<close>; a function that may raise returns \<open>exn + 'a\<close> with
  \<open>Inl\<close> for the exception. Objects of ophyd, numpy and the notepad service, which the
  module only calls, appear through the interface the module uses.
\<close>

subsection \<open>Exceptions and positions\<close>

datatype value_error =
    PositionersNotPresent "string set"
  | IncorrectNumberOfColumnNames
  | UnsupportedTableDimensions "nat list"
  | OtherValueError

datatype exn =
    TypeError
  | ValueError value_error
  | IndexError
  | KeyError
  | AttributeError
  | ZeroDivisionError
  | UnitUsageError
  | RuntimeError

text \<open>
  A \<^verbatim>\<open>RealPosition\<close> or \<^verbatim>\<open>PseudoPosition\<close> is a named tuple: the
  field names in order, each with its value. Python refuses a named tuple with a repeated
  field name, so the names of a position are distinct. Where a position has the single
  field the source reads by name (\<^verbatim>\<open>pseudo_pos.pseudo\<close>,
  \<^verbatim>\<open>pseudo_pos.delay\<close>, \<^verbatim>\<open>real_pos.motor\<close>), the model passes that
  value.
\<close>

type_synonym position = "(string \<times> real) list"

text \<open>
  \<^verbatim>\<open>RealPosition(**kw)\<close>: the keywords must be exactly the fields; the values are
  taken in the order of the fields.
\<close>

definition RealPosition :: "string list \<Rightarrow> (string \<times> real) list \<Rightarrow> exn + position" where
  "RealPosition flds kw =
     (if set (map fst kw) = set flds
      then Inr (map (\<lambda>f. (f, the (map_of kw f))) flds)
      else Inl TypeError)"

subsection \<open>Doubles\<close>

text \<open>
  A Python float is an IEEE double: a real number with 53 significant bits. The result of
  an arithmetic operation is the exact result rounded to the nearest double, a tie going
  to the double whose last bit is zero. \<open>normalise\<close> finds the binary exponent of a
  positive number by halving or doubling it into the interval from 1 to 2; the fuel
  covers the whole range of the doubles. Overflow to infinity, subnormal numbers and NaN
  are not modelled.
\<close>

fun normalise :: "nat \<Rightarrow> real \<Rightarrow> int \<Rightarrow> int" where
  "normalise 0 x e = e"
| "normalise (Suc fuel) x e =
     (if 2 \<le> x then normalise fuel (x / 2) (e + 1)
      else if x < 1 then normalise fuel (x * 2) (e - 1)
      else e)"

definition exponent :: "real \<Rightarrow> int" where
  "exponent x = normalise 2200 \<bar>x\<bar> 0"

definition round_half_even :: "real \<Rightarrow> int" where
  "round_half_even q =
     (let f = \<lfloor>q\<rfloor>; d = q - of_int f in
      if d < 1 / 2 then f else if 1 / 2 < d then f + 1
      else if even f then f else f + 1)"

text \<open>The double nearest to a real number.\<close>

definition fl :: "real \<Rightarrow> real" where
  "fl x = (if x = 0 then 0
           else let e = exponent x - 52 in of_int (round_half_even (x / 2 powi e)) * 2 powi e)"

text \<open>Python's \<^verbatim>\<open>a - b\<close> and \<^verbatim>\<open>a + b\<close> on floats.\<close>

definition fsub :: "real \<Rightarrow> real \<Rightarrow> real" where
  "fsub a b = fl (a - b)"

definition fadd :: "real \<Rightarrow> real \<Rightarrow> real" where
  "fadd a b = fl (a + b)"

subsection \<open>PseudoPositioner: the notepad push\<close>

text \<open>
  A \<^verbatim>\<open>NotepadLinkedSignal\<close> as the push uses it: reading
  \<^verbatim>\<open>connected\<close> and \<^verbatim>\<open>write_access\<close>, \<^verbatim>\<open>get(use_monitor=True)\<close>
  and \<^verbatim>\<open>put(value, wait=False)\<close>, each of which may raise.
\<close>

record signal =
  sig_connected :: "exn + bool"
  sig_write_access :: "exn + bool"
  sig_get :: "exn + real"
  sig_put :: "real \<Rightarrow> exn option"

text \<open>A pseudo axis: its name and the signals found by \<^verbatim>\<open>getattr\<close>.\<close>

record pseudo_single =
  ps_name :: string
  ps_attrs :: "(string \<times> signal) list"

text \<open>What the push does to the outside: writes issued and debug records logged.\<close>

datatype event =
    Put string string real
  | LogDebug string real exn

text \<open>
  The body of the \<^verbatim>\<open>try\<close> for one axis: the writes it issued and the exception
  that ended it, if any.
\<close>

definition notepad_try :: "pseudo_single \<Rightarrow> string \<Rightarrow> real \<Rightarrow> event list \<times> exn option" where
  "notepad_try positioner attr v =
     (case map_of (ps_attrs positioner) attr of
        None \<Rightarrow> ([], None)
      | Some sg \<Rightarrow>
         (case sig_connected sg of
            Inl e \<Rightarrow> ([], Some e)
          | Inr False \<Rightarrow> ([], None)
          | Inr True \<Rightarrow>
             (case sig_write_access sg of
                Inl e \<Rightarrow> ([], Some e)
              | Inr False \<Rightarrow> ([], None)
              | Inr True \<Rightarrow>
                 (case sig_get sg of
                    Inl e \<Rightarrow> ([], Some e)
                  | Inr cur \<Rightarrow>
                      if cur \<noteq> v
                      then ([Put (ps_name positioner) attr v], sig_put sg v)
                      else ([], None)))))"

text \<open>One turn of the loop: the \<^verbatim>\<open>try\<close> with its \<^verbatim>\<open>except Exception\<close>.\<close>

definition notepad_step :: "pseudo_single \<Rightarrow> string \<Rightarrow> real \<Rightarrow> event list" where
  "notepad_step positioner attr v =
     (case notepad_try positioner attr v of
        (evs, None) \<Rightarrow> evs
      | (evs, Some ex) \<Rightarrow> evs @ [LogDebug attr v ex])"

definition update_notepad_ioc :: "pseudo_single list \<Rightarrow> real list \<Rightarrow> string \<Rightarrow> event list" where
  "update_notepad_ioc pseudo pos attr =
     concat (map (\<lambda>(positioner, v). notepad_step positioner attr v) (zip pseudo pos))"

text \<open>
  \<^verbatim>\<open>move\<close>: the inherited move of ophyd, whose outcome is \<open>super_move\<close>, then the
  push, then the status is returned. The result is the outcome together with the events
  of the push.
\<close>

definition move :: "pseudo_single list \<Rightarrow> exn + 'status \<Rightarrow> real list \<Rightarrow> (exn + 'status) \<times> event list" where
  "move pseudo super_move pos =
     (case super_move of
        Inl e \<Rightarrow> (Inl e, [])
      | Inr status \<Rightarrow> (Inr status, update_notepad_ioc pseudo pos ''notepad_setpoint''))"

definition update_position :: "pseudo_single list \<Rightarrow> exn + real list \<Rightarrow> (exn + real list) \<times> event list" where
  "update_position pseudo super_update_position =
     (case super_update_position of
        Inl e \<Rightarrow> (Inl e, [])
      | Inr pos \<Rightarrow> (Inr pos, update_notepad_ioc pseudo pos ''notepad_readback''))"

subsection \<open>Classes\<close>

text \<open>The class of the object under construction, \<^verbatim>\<open>self.__class__\<close>.\<close>

datatype pyclass = SyncAxesBase | DelayBase | SimDelayStage | Subclass string

subsection \<open>SyncAxesBase\<close>

text \<open>
  The state of a synchronized-axes positioner: what the real motors read now
  (\<^verbatim>\<open>self.real_position\<close>) and the dictionary \<^verbatim>\<open>self._offsets\<close>, in
  insertion order.
\<close>

record sync_axes =
  real_position :: position
  offsets :: "(string \<times> real) list"

text \<open>
  \<^verbatim>\<open>__init__\<close>; \<open>super_init\<close> is the outcome of the inherited constructor of
  ophyd, which connects the real motors.
\<close>

definition SyncAxesBase_init :: "pyclass \<Rightarrow> exn + position \<Rightarrow> exn + sync_axes" where
  "SyncAxesBase_init cls super_init =
     (if cls = SyncAxesBase then Inl TypeError
      else (case super_init of
              Inl e \<Rightarrow> Inl e
            | Inr pos \<Rightarrow> Inr \<lparr>real_position = pos, offsets = []\<rparr>))"

text \<open>The default \<^verbatim>\<open>calc_combined\<close>: \<^verbatim>\<open>real_position[0]\<close>.\<close>

definition calc_combined :: "position \<Rightarrow> exn + real" where
  "calc_combined pos = (case pos of [] \<Rightarrow> Inl IndexError | (fld, v) # rest \<Rightarrow> Inr v)"

text \<open>
  The methods take \<^verbatim>\<open>calc_combined\<close> as the argument \<open>cc\<close>, since a subclass
  may override it.
\<close>

definition save_offsets :: "(position \<Rightarrow> exn + real) \<Rightarrow> sync_axes \<Rightarrow> exn + sync_axes" where
  "save_offsets cc self =
     (let pos = real_position self in
      case cc pos of
        Inl e \<Rightarrow> Inl e
      | Inr combo \<Rightarrow> Inr (self\<lparr>offsets := map (\<lambda>(fld, v). (fld, fsub v combo)) pos\<rparr>))"

definition sync_forward ::
  "(position \<Rightarrow> exn + real) \<Rightarrow> sync_axes \<Rightarrow> real \<Rightarrow> exn + position \<times> sync_axes" where
  "sync_forward cc self pseudo =
     (case (if offsets self = [] then save_offsets cc self else Inr self) of
        Inl e \<Rightarrow> Inl e
      | Inr self' \<Rightarrow>
         (let real_pos = map (\<lambda>(axis, offset). (axis, pseudo + offset)) (offsets self') in
          case RealPosition (map fst (real_position self')) real_pos of
            Inl e \<Rightarrow> Inl e
          | Inr r \<Rightarrow> Inr (r, self')))"

definition sync_inverse :: "(position \<Rightarrow> exn + real) \<Rightarrow> position \<Rightarrow> exn + real" where
  "sync_inverse cc real_pos = cc real_pos"

subsection \<open>Unit conversion\<close>

datatype dimension = Time | Length

text \<open>
  Modelled from the spec: \<^verbatim>\<open>convert_unit\<close> of \<^verbatim>\<open>pcdsdevices/utils.py\<close>
  is not among the sources. The spec asks for seconds and the SI time prefixes, meters and
  the SI length prefixes, and for a usage error when the dimensions differ. Each unit is
  listed with its dimension and its size in the SI base unit.
\<close>

definition unit_table :: "(string \<times> dimension \<times> real) list" where
  "unit_table =
    [(''s'', Time, 1), (''seconds'', Time, 1), (''second'', Time, 1),
     (''ms'', Time, 1 / 10 ^ 3), (''us'', Time, 1 / 10 ^ 6), (''ns'', Time, 1 / 10 ^ 9),
     (''ps'', Time, 1 / 10 ^ 12), (''fs'', Time, 1 / 10 ^ 15),
     (''m'', Length, 1), (''meters'', Length, 1), (''meter'', Length, 1),
     (''km'', Length, 10 ^ 3), (''cm'', Length, 1 / 10 ^ 2), (''mm'', Length, 1 / 10 ^ 3),
     (''um'', Length, 1 / 10 ^ 6), (''nm'', Length, 1 / 10 ^ 9)]"

definition convert_unit :: "real \<Rightarrow> string \<Rightarrow> string \<Rightarrow> exn + real" where
  "convert_unit v unit new_unit =
     (case (map_of unit_table unit, map_of unit_table new_unit) of
        (Some (d, f), Some (d', f')) \<Rightarrow>
          if d = d' then Inr (v * f / f') else Inl UnitUsageError
      | _ \<Rightarrow> Inl UnitUsageError)"

text \<open>The dimension of a unit the table knows.\<close>

definition dimension_of :: "string \<Rightarrow> dimension option" where
  "dimension_of u = map_option fst (map_of unit_table u)"

text \<open>\<^verbatim>\<open>scipy.constants.speed_of_light\<close>, in meters per second.\<close>

definition speed_of_light :: real where
  "speed_of_light = 299792458"

subsection \<open>DelayBase\<close>

text \<open>
  What the transform reads of a delay stage: the unit of the \<^verbatim>\<open>delay\<close> axis,
  the number of bounces, and the unit of the real \<^verbatim>\<open>motor\<close>.
\<close>

record delay_base =
  egu :: string
  n_bounces :: int
  motor_egu :: string

text \<open>
  \<^verbatim>\<open>__init__(egu='s', n_bounces=2)\<close>; an argument left out is \<open>None\<close>.
  \<open>super_init\<close> is the outcome of the inherited constructor, which builds the
  \<^verbatim>\<open>motor\<close> component of the subclass and so fixes its unit.
\<close>

definition DelayBase_init ::
  "pyclass \<Rightarrow> string option \<Rightarrow> int option \<Rightarrow> exn + string \<Rightarrow> exn + delay_base" where
  "DelayBase_init cls egu_arg n_bounces_arg super_init =
     (if cls = DelayBase then Inl TypeError
      else (case super_init of
              Inl e \<Rightarrow> Inl e
            | Inr m_egu \<Rightarrow>
                Inr \<lparr>egu = (case egu_arg of None \<Rightarrow> ''s'' | Some u \<Rightarrow> u),
                     n_bounces = (case n_bounces_arg of None \<Rightarrow> 2 | Some n \<Rightarrow> n),
                     motor_egu = m_egu\<rparr>))"

text \<open>Python's true division raises on a zero divisor.\<close>

definition py_truediv :: "real \<Rightarrow> int \<Rightarrow> exn + real" where
  "py_truediv a n = (if n = 0 then Inl ZeroDivisionError else Inr (a / real_of_int n))"

definition delay_forward :: "delay_base \<Rightarrow> real \<Rightarrow> exn + real" where
  "delay_forward self delay =
     (case convert_unit delay (egu self) ''seconds'' of
        Inl e \<Rightarrow> Inl e
      | Inr seconds \<Rightarrow>
         (case py_truediv (seconds * speed_of_light) (n_bounces self) of
            Inl e \<Rightarrow> Inl e
          | Inr meters \<Rightarrow> convert_unit meters ''meters'' (motor_egu self)))"

definition delay_inverse :: "delay_base \<Rightarrow> real \<Rightarrow> exn + real" where
  "delay_inverse self motor =
     (case convert_unit motor (motor_egu self) ''meters'' of
        Inl e \<Rightarrow> Inl e
      | Inr meters \<Rightarrow>
         (let seconds = meters / speed_of_light * real_of_int (n_bounces self)
          in convert_unit seconds ''seconds'' (egu self)))"

subsection \<open>LookupTablePositioner\<close>

text \<open>
  A numpy array: its shape and its elements in row-major order, as many as the product of
  the shape. A scalar array has the empty shape.
\<close>

record ndarray =
  shape :: "nat list"
  buffer :: "real list"

text \<open>\<^verbatim>\<open>table[:, idx]\<close> of a two-dimensional array.\<close>

definition column :: "ndarray \<Rightarrow> nat \<Rightarrow> real list" where
  "column t idx =
     (case shape t of
        [rows, cols] \<Rightarrow> map (\<lambda>r. buffer t ! (r * cols + idx)) [0..<rows]
      | _ \<Rightarrow> [])"

text \<open>
  \<^verbatim>\<open>np.min\<close> and \<^verbatim>\<open>np.max\<close> raise \<^verbatim>\<open>ValueError\<close> on an empty
  array.
\<close>

definition np_min :: "real list \<Rightarrow> exn + real" where
  "np_min xs = (case xs of [] \<Rightarrow> Inl (ValueError OtherValueError) | x # rest \<Rightarrow> Inr (fold min rest x))"

definition np_max :: "real list \<Rightarrow> exn + real" where
  "np_max xs = (case xs of [] \<Rightarrow> Inl (ValueError OtherValueError) | x # rest \<Rightarrow> Inr (fold max rest x))"

text \<open>
  \<^verbatim>\<open>np.interp(x, xp, fp)\<close> for a scalar \<open>x\<close>. numpy first tests whether
  \<open>x\<close> is above the last sample point (the result is the last value), then whether it
  is below the first (the first value), and otherwise searches the segment \<open>j\<close>: at
  the last point or at \<^verbatim>\<open>xp[j]\<close> itself the result is \<^verbatim>\<open>fp[j]\<close>, else
  \<^verbatim>\<open>slope*(x - xp[j]) + fp[j]\<close>. \<open>interp_from\<close> searches from the left for the
  first \<open>j\<close> with \<^verbatim>\<open>x < xp[j+1]\<close>, which is numpy's own search for up to
  four sample points, and the segment \<^verbatim>\<open>xp[j] <= x < xp[j+1]\<close> that numpy finds
  for any number of increasing sample points.
\<close>

fun interp_from :: "real \<Rightarrow> real list \<Rightarrow> real list \<Rightarrow> real" where
  "interp_from x (x0 # x1 # xp) (y0 # y1 # fp) =
     (if x < x1
      then (if x0 = x then y0 else (y1 - y0) / (x1 - x0) * (x - x0) + y0)
      else interp_from x (x1 # xp) (y1 # fp))"
| "interp_from x xp (y0 # fp) = y0"
| "interp_from x xp [] = 0"

definition np_interp :: "real \<Rightarrow> real list \<Rightarrow> real list \<Rightarrow> exn + real" where
  "np_interp x xp fp =
     (case xp of
        [] \<Rightarrow> Inl (ValueError OtherValueError)
      | x0 # rest \<Rightarrow>
          if length fp \<noteq> length xp then Inl (ValueError OtherValueError)
          else if last xp < x then Inr (last fp)
          else if x < x0 then Inr (hd fp)
          else Inr (interp_from x xp fp))"

text \<open>
  An attribute of the positioner that a column may name: a \<^verbatim>\<open>PseudoSingle\<close>
  with its \<^verbatim>\<open>_limits\<close>; an object with a \<^verbatim>\<open>limits\<close> attribute, its
  value, and the exception that assigning to it raises, if any; an object without one.
\<close>

datatype component =
    PseudoSingle "real \<times> real"
  | WithLimits "real \<times> real" "exn option"
  | WithoutLimits

record lookup_table_positioner =
  real_attrs :: "string list"
  pseudo_attrs :: "string list"
  components :: "(string \<times> component) list"
  table :: ndarray
  column_names :: "string list"
  table_data_by_name :: "(string \<times> real list) list"
  debug_log :: "string list"

text \<open>The loop over \<^verbatim>\<open>self._real + self._pseudo\<close> that collects the missing names.\<close>

definition missing_names :: "string list \<Rightarrow> string list \<Rightarrow> string set" where
  "missing_names attr_names col_names =
     fold (\<lambda>a missing. if a \<notin> set col_names then insert a missing else missing) attr_names {}"

text \<open>
  The dictionary comprehension over \<^verbatim>\<open>enumerate(column_names)\<close>: a repeated
  name keeps its first place and takes the last column.
\<close>

definition data_by_name :: "ndarray \<Rightarrow> string list \<Rightarrow> (string \<times> real list) list" where
  "data_by_name t col_names =
     fold (\<lambda>(idx, name) d. AList.update name (column t idx) d) (enumerate 0 col_names) []"

text \<open>
  The body of the loop that sets the limits, for one item of the dictionary; it carries
  the attributes of the positioner and the debug log. \<^verbatim>\<open>getattr(self, attr)\<close>
  raises \<^verbatim>\<open>AttributeError\<close> when the positioner has no such attribute.
\<close>

definition set_limit ::
  "string \<Rightarrow> real list \<Rightarrow> (string \<times> component) list \<Rightarrow> string list
     \<Rightarrow> exn + (string \<times> component) list \<times> string list" where
  "set_limit attr dat comps lg =
     (case map_of comps attr of
        None \<Rightarrow> Inl AttributeError
      | Some obj \<Rightarrow>
         (case np_min dat of
            Inl e \<Rightarrow> Inl e
          | Inr lo \<Rightarrow>
             (case np_max dat of
                Inl e \<Rightarrow> Inl e
              | Inr hi \<Rightarrow>
                 (case obj of
                    PseudoSingle old \<Rightarrow>
                      Inr (AList.update attr (PseudoSingle (lo, hi)) comps, lg)
                  | WithLimits old None \<Rightarrow>
                      Inr (AList.update attr (WithLimits (lo, hi) None) comps, lg)
                  | WithLimits old (Some ex) \<Rightarrow>
                      if ex = AttributeError then Inr (comps, lg @ [attr]) else Inl ex
                  | WithoutLimits \<Rightarrow> Inr (comps, lg)))))"

text \<open>The loop over the items of the dictionary.\<close>

fun set_limits ::
  "(string \<times> real list) list \<Rightarrow> (string \<times> component) list \<Rightarrow> string list
     \<Rightarrow> exn + (string \<times> component) list \<times> string list" where
  "set_limits [] comps lg = Inr (comps, lg)"
| "set_limits ((attr, dat) # items) comps lg =
     (case set_limit attr dat comps lg of
        Inl e \<Rightarrow> Inl e
      | Inr (comps', lg') \<Rightarrow> set_limits items comps' lg')"

text \<open>
  \<^verbatim>\<open>__init__\<close>, after the inherited constructor has built the axes: the names of
  the real and pseudo axes and the attributes of the object are its outcome.
  \<^verbatim>\<open>table.shape[-1]\<close> raises \<^verbatim>\<open>IndexError\<close> on the empty shape.
\<close>

definition LookupTablePositioner_init ::
  "string list \<Rightarrow> string list \<Rightarrow> (string \<times> component) list \<Rightarrow> ndarray \<Rightarrow> string list
     \<Rightarrow> exn + lookup_table_positioner" where
  "LookupTablePositioner_init reals pseudos comps t col_names =
     (let missing = missing_names (reals @ pseudos) col_names in
      if missing \<noteq> {} then Inl (ValueError (PositionersNotPresent missing))
      else if shape t = [] then Inl IndexError
      else if length col_names \<noteq> last (shape t) then Inl (ValueError IncorrectNumberOfColumnNames)
      else if length (shape t) \<noteq> 2 then Inl (ValueError (UnsupportedTableDimensions (shape t)))
      else
        (let by_name = data_by_name t col_names in
         case set_limits by_name comps [] of
           Inl e \<Rightarrow> Inl e
         | Inr (comps', lg) \<Rightarrow>
             Inr \<lparr>real_attrs = reals, pseudo_attrs = pseudos, components = comps',
                  table = t, column_names = col_names, table_data_by_name = by_name,
                  debug_log = lg\<rparr>))"

text \<open>
  \<^verbatim>\<open>pseudo_field, = self.PseudoPosition._fields\<close> raises \<^verbatim>\<open>ValueError\<close>
  unless there is exactly one field; the fields of the position tuples are the names of
  the axes. Looking up a dictionary raises \<^verbatim>\<open>KeyError\<close> on a missing key.
\<close>

definition unpack1 :: "string list \<Rightarrow> exn + string" where
  "unpack1 flds = (case flds of [f] \<Rightarrow> Inr f | _ \<Rightarrow> Inl (ValueError OtherValueError))"

definition getitem :: "(string \<times> 'v) list \<Rightarrow> string \<Rightarrow> exn + 'v" where
  "getitem d k = (case map_of d k of None \<Rightarrow> Inl KeyError | Some v \<Rightarrow> Inr v)"

definition lookup_forward :: "lookup_table_positioner \<Rightarrow> position \<Rightarrow> exn + position" where
  "lookup_forward self pseudo_pos =
     (case unpack1 (pseudo_attrs self) of Inl e \<Rightarrow> Inl e | Inr pseudo_field \<Rightarrow>
     (case unpack1 (real_attrs self) of Inl e \<Rightarrow> Inl e | Inr real_field \<Rightarrow>
     (case getitem pseudo_pos pseudo_field of Inl e \<Rightarrow> Inl e | Inr x \<Rightarrow>
     (case getitem (table_data_by_name self) pseudo_field of Inl e \<Rightarrow> Inl e | Inr xp \<Rightarrow>
     (case getitem (table_data_by_name self) real_field of Inl e \<Rightarrow> Inl e | Inr fp \<Rightarrow>
     (case np_interp x xp fp of Inl e \<Rightarrow> Inl e | Inr real_value \<Rightarrow>
        Inr [(real_field, real_value)]))))))"

definition lookup_inverse :: "lookup_table_positioner \<Rightarrow> position \<Rightarrow> exn + position" where
  "lookup_inverse self real_pos =
     (case unpack1 (pseudo_attrs self) of Inl e \<Rightarrow> Inl e | Inr pseudo_field \<Rightarrow>
     (case unpack1 (real_attrs self) of Inl e \<Rightarrow> Inl e | Inr real_field \<Rightarrow>
     (case getitem real_pos real_field of Inl e \<Rightarrow> Inl e | Inr x \<Rightarrow>
     (case getitem (table_data_by_name self) real_field of Inl e \<Rightarrow> Inl e | Inr xp \<Rightarrow>
     (case getitem (table_data_by_name self) pseudo_field of Inl e \<Rightarrow> Inl e | Inr fp \<Rightarrow>
     (case np_interp x xp fp of Inl e \<Rightarrow> Inl e | Inr pseudo_value \<Rightarrow>
        Inr [(pseudo_field, pseudo_value)]))))))"

section \<open>Properties\<close>

subsection \<open>The notepad push\<close>

lemma set_notepad_step:
  "set (notepad_step p attr val) =
     set (fst (notepad_try p attr val))
       \<union> (case snd (notepad_try p attr val) of None \<Rightarrow> {} | Some ex \<Rightarrow> {LogDebug attr val ex})"
  by (cases "notepad_try p attr val") (auto simp: notepad_step_def split: option.splits)

lemma notepad_try_Put:
  "Put n a v \<in> set (fst (notepad_try p attr val)) \<longleftrightarrow>
     n = ps_name p \<and> a = attr \<and> v = val
     \<and> (\<exists>sg cur. map_of (ps_attrs p) attr = Some sg \<and> sig_connected sg = Inr True
            \<and> sig_write_access sg = Inr True \<and> sig_get sg = Inr cur \<and> cur \<noteq> val)"
  by (auto simp: notepad_try_def split: option.splits sum.splits bool.splits)

lemma notepad_try_LogDebug:
  "LogDebug a v ex \<notin> set (fst (notepad_try p attr val))"
  by (auto simp: notepad_try_def split: option.splits sum.splits bool.splits)

lemma notepad_step_Put:
  "Put n a v \<in> set (notepad_step p attr val) \<longleftrightarrow>
     n = ps_name p \<and> a = attr \<and> v = val
     \<and> (\<exists>sg cur. map_of (ps_attrs p) attr = Some sg \<and> sig_connected sg = Inr True
            \<and> sig_write_access sg = Inr True \<and> sig_get sg = Inr cur \<and> cur \<noteq> val)"
  by (simp add: set_notepad_step notepad_try_Put split: option.splits)

lemma notepad_step_LogDebug:
  "LogDebug a v ex \<in> set (notepad_step p attr val) \<longleftrightarrow>
     a = attr \<and> v = val \<and> snd (notepad_try p attr val) = Some ex"
  by (auto simp: set_notepad_step notepad_try_LogDebug split: option.splits)

lemma update_notepad_ioc_set:
  "ev \<in> set (update_notepad_ioc pseudo pos attr) \<longleftrightarrow>
     (\<exists>(p, val) \<in> set (zip pseudo pos). ev \<in> set (notepad_step p attr val))"
  by (auto simp: update_notepad_ioc_def)

lemma notepad_try_raises:
  "snd (notepad_try p attr val) = Some ex \<longleftrightarrow>
     (\<exists>sg. map_of (ps_attrs p) attr = Some sg
        \<and> (sig_connected sg = Inl ex
           \<or> sig_connected sg = Inr True \<and> sig_write_access sg = Inl ex
           \<or> sig_connected sg = Inr True \<and> sig_write_access sg = Inr True
               \<and> sig_get sg = Inl ex
           \<or> sig_connected sg = Inr True \<and> sig_write_access sg = Inr True
               \<and> (\<exists>cur. sig_get sg = Inr cur \<and> cur \<noteq> val) \<and> sig_put sg val = Some ex))"
  by (auto simp: notepad_try_def split: option.splits sum.splits bool.splits)

text \<open>
  C9. When the inherited move returns a status, \<open>move\<close> returns that status whatever
  the signals do, and \<open>update_position\<close> likewise returns the position. In the push a
  write is issued for an axis exactly when the axis has the signal, the signal is
  connected and writable, and the value it last had differs from the new one. A debug
  record is logged exactly for each exception raised on an axis: by reading
  \<open>connected\<close>, by reading \<open>write_access\<close> of a connected signal, by \<open>get\<close> of a
  connected and writable signal, or by the \<open>put\<close> that was issued. The other axes are
  still served.
\<close>

theorem notepad_push:
  "fst (move pseudo (Inr status) pos) = Inr status
   \<and> snd (move pseudo (Inr status) pos) = update_notepad_ioc pseudo pos ''notepad_setpoint''
   \<and> fst (update_position pseudo (Inr pos)) = Inr pos
   \<and> snd (update_position pseudo (Inr pos)) = update_notepad_ioc pseudo pos ''notepad_readback''
   \<and> (Put n a v \<in> set (update_notepad_ioc pseudo pos attr) \<longleftrightarrow>
        (\<exists>(p, val) \<in> set (zip pseudo pos).
            n = ps_name p \<and> a = attr \<and> v = val
            \<and> (\<exists>sg cur. map_of (ps_attrs p) attr = Some sg \<and> sig_connected sg = Inr True
                  \<and> sig_write_access sg = Inr True \<and> sig_get sg = Inr cur \<and> cur \<noteq> val)))
   \<and> (LogDebug a v ex \<in> set (update_notepad_ioc pseudo pos attr) \<longleftrightarrow>
        (\<exists>(p, val) \<in> set (zip pseudo pos).
            a = attr \<and> v = val
            \<and> (\<exists>sg. map_of (ps_attrs p) attr = Some sg
                  \<and> (sig_connected sg = Inl ex
                     \<or> sig_connected sg = Inr True \<and> sig_write_access sg = Inl ex
                     \<or> sig_connected sg = Inr True \<and> sig_write_access sg = Inr True
                         \<and> sig_get sg = Inl ex
                     \<or> sig_connected sg = Inr True \<and> sig_write_access sg = Inr True
                         \<and> (\<exists>cur. sig_get sg = Inr cur \<and> cur \<noteq> val)
                         \<and> sig_put sg val = Some ex))))"
  by (simp add: move_def update_position_def update_notepad_ioc_set notepad_step_Put
      notepad_step_LogDebug notepad_try_raises)

theorem notepad_push_witness:
  "fst (move
      [\<lparr>ps_name = ''x'', ps_attrs = [(''notepad_setpoint'',
          \<lparr>sig_connected = Inr True, sig_write_access = Inr True, sig_get = Inl RuntimeError,
           sig_put = (\<lambda>v. None)\<rparr>)]\<rparr>,
       \<lparr>ps_name = ''y'', ps_attrs = [(''notepad_setpoint'',
          \<lparr>sig_connected = Inr True, sig_write_access = Inr True, sig_get = Inr 1,
           sig_put = (\<lambda>v. Some KeyError)\<rparr>)]\<rparr>]
      (Inr ()) [1, 2]) = Inr ()
   \<and> Put ''y'' ''notepad_setpoint'' 2 \<in> set (update_notepad_ioc
      [\<lparr>ps_name = ''x'', ps_attrs = [(''notepad_setpoint'',
          \<lparr>sig_connected = Inr True, sig_write_access = Inr True, sig_get = Inl RuntimeError,
           sig_put = (\<lambda>v. None)\<rparr>)]\<rparr>,
       \<lparr>ps_name = ''y'', ps_attrs = [(''notepad_setpoint'',
          \<lparr>sig_connected = Inr True, sig_write_access = Inr True, sig_get = Inr 1,
           sig_put = (\<lambda>v. Some KeyError)\<rparr>)]\<rparr>]
      [1, 2] ''notepad_setpoint'')
   \<and> LogDebug ''notepad_setpoint'' 1 RuntimeError \<in> set (update_notepad_ioc
      [\<lparr>ps_name = ''x'', ps_attrs = [(''notepad_setpoint'',
          \<lparr>sig_connected = Inr True, sig_write_access = Inr True, sig_get = Inl RuntimeError,
           sig_put = (\<lambda>v. None)\<rparr>)]\<rparr>,
       \<lparr>ps_name = ''y'', ps_attrs = [(''notepad_setpoint'',
          \<lparr>sig_connected = Inr True, sig_write_access = Inr True, sig_get = Inr 1,
           sig_put = (\<lambda>v. Some KeyError)\<rparr>)]\<rparr>]
      [1, 2] ''notepad_setpoint'')
   \<and> LogDebug ''notepad_setpoint'' 2 KeyError \<in> set (update_notepad_ioc
      [\<lparr>ps_name = ''x'', ps_attrs = [(''notepad_setpoint'',
          \<lparr>sig_connected = Inr True, sig_write_access = Inr True, sig_get = Inl RuntimeError,
           sig_put = (\<lambda>v. None)\<rparr>)]\<rparr>,
       \<lparr>ps_name = ''y'', ps_attrs = [(''notepad_setpoint'',
          \<lparr>sig_connected = Inr True, sig_write_access = Inr True, sig_get = Inr 1,
           sig_put = (\<lambda>v. Some KeyError)\<rparr>)]\<rparr>]
      [1, 2] ''notepad_setpoint'')"
  using notepad_push [where pseudo = "[\<lparr>ps_name = ''x'', ps_attrs = [(''notepad_setpoint'',
          \<lparr>sig_connected = Inr True, sig_write_access = Inr True, sig_get = Inl RuntimeError,
           sig_put = (\<lambda>v. None)\<rparr>)]\<rparr>,
       \<lparr>ps_name = ''y'', ps_attrs = [(''notepad_setpoint'',
          \<lparr>sig_connected = Inr True, sig_write_access = Inr True, sig_get = Inr 1,
           sig_put = (\<lambda>v. Some KeyError)\<rparr>)]\<rparr>]"
      and status = "()" and pos = "[1, 2]" and attr = "''notepad_setpoint''"
      and n = "''y''" and a = "''notepad_setpoint''" and v = 2 and ex = KeyError]
    notepad_push [where pseudo = "[\<lparr>ps_name = ''x'', ps_attrs = [(''notepad_setpoint'',
          \<lparr>sig_connected = Inr True, sig_write_access = Inr True, sig_get = Inl RuntimeError,
           sig_put = (\<lambda>v. None)\<rparr>)]\<rparr>,
       \<lparr>ps_name = ''y'', ps_attrs = [(''notepad_setpoint'',
          \<lparr>sig_connected = Inr True, sig_write_access = Inr True, sig_get = Inr 1,
           sig_put = (\<lambda>v. Some KeyError)\<rparr>)]\<rparr>]"
      and status = "()" and pos = "[1, 2]" and attr = "''notepad_setpoint''"
      and a = "''notepad_setpoint''" and v = 1 and ex = RuntimeError]
  by simp

subsection \<open>Abstract bases\<close>

text \<open>
  C8. Building an object whose class is \<open>SyncAxesBase\<close> or \<open>DelayBase\<close> itself
  raises \<open>TypeError\<close>, whatever the inherited constructor would do. For any other
  class the guard lets the construction through: when the inherited constructor succeeds,
  so does \<open>__init__\<close>, with an empty offset cache for the synchronized axes and with
  the given (or default) unit and number of bounces for the delay stage.
\<close>

theorem abstract_bases_rejected:
  "SyncAxesBase_init SyncAxesBase super_sync = Inl TypeError
   \<and> DelayBase_init DelayBase egu_arg n_arg super_delay = Inl TypeError
   \<and> (cls \<noteq> SyncAxesBase \<longrightarrow>
        SyncAxesBase_init cls (Inr pos) = Inr \<lparr>real_position = pos, offsets = []\<rparr>)
   \<and> (cls \<noteq> DelayBase \<longrightarrow>
        DelayBase_init cls egu_arg n_arg (Inr m_egu)
          = Inr \<lparr>egu = (case egu_arg of None \<Rightarrow> ''s'' | Some u \<Rightarrow> u),
                 n_bounces = (case n_arg of None \<Rightarrow> 2 | Some n \<Rightarrow> n),
                 motor_egu = m_egu\<rparr>)"
  by (simp add: SyncAxesBase_init_def DelayBase_init_def)

theorem abstract_bases_rejected_witness:
  "Subclass ''Parallel'' \<noteq> SyncAxesBase
   \<and> SyncAxesBase_init (Subclass ''Parallel'') (Inr [(''left'', 1), (''right'', 3)])
        = Inr \<lparr>real_position = [(''left'', 1), (''right'', 3)], offsets = []\<rparr>
   \<and> SimDelayStage \<noteq> DelayBase
   \<and> DelayBase_init SimDelayStage None None (Inr ''mm'')
        = Inr \<lparr>egu = ''s'', n_bounces = 2, motor_egu = ''mm''\<rparr>"
  using abstract_bases_rejected [where cls = "Subclass ''Parallel''"
      and pos = "[(''left'', 1), (''right'', 3)]" and egu_arg = None and n_arg = None
      and m_egu = "''mm''" and super_sync = "Inr []" and super_delay = "Inr ''mm''"]
    abstract_bases_rejected [where cls = SimDelayStage and pos = "[]" and egu_arg = None
      and n_arg = None and m_egu = "''mm''" and super_sync = "Inr []"
      and super_delay = "Inr ''mm''"]
  by simp

subsection \<open>Doubles\<close>

text \<open>
  With enough fuel \<open>normalise\<close> returns the binary exponent, so that the rounding of a
  number of known magnitude can be computed.
\<close>

lemma powi_Suc: "(2::real) powi (k + 1) = 2 * 2 powi k"
  by (simp add: power_int_add)

lemma powi_pred: "(2::real) powi (k - 1) = 2 powi k / 2"
  by (simp add: power_int_diff)

lemma normalise_correct:
  "2 powi k \<le> x \<Longrightarrow> x < 2 powi (k + 1) \<Longrightarrow> nat \<bar>k\<bar> \<le> fuel \<Longrightarrow> normalise fuel x e = e + k"
proof (induction fuel arbitrary: x k e)
  case 0
  then show ?case by simp
next
  case (Suc fuel)
  consider "2 \<le> x" | "x < 1" | "1 \<le> x" "x < 2" by linarith
  then show ?case
  proof cases
    case 1
    have "0 < k"
    proof (rule ccontr)
      assume "\<not> 0 < k"
      then have "k + 1 \<le> 1" by simp
      then have "(2::real) powi (k + 1) \<le> 2 powi 1" by (intro power_int_increasing) auto
      with Suc.prems(2) 1 show False by simp
    qed
    have "2 powi (k - 1) \<le> x / 2" "x / 2 < 2 powi (k - 1 + 1)"
      using Suc.prems(1,2) by (simp_all add: powi_pred powi_Suc)
    moreover have "nat \<bar>k - 1\<bar> \<le> fuel" using Suc.prems(3) \<open>0 < k\<close> by simp
    ultimately have "normalise fuel (x / 2) (e + 1) = e + 1 + (k - 1)"
      by (rule Suc.IH)
    with 1 show ?thesis by simp
  next
    case 2
    have "k < 0"
    proof (rule ccontr)
      assume "\<not> k < 0"
      then have "0 \<le> k" by simp
      then have "(2::real) powi 0 \<le> 2 powi k" by (intro power_int_increasing) auto
      with Suc.prems(1) 2 show False by simp
    qed
    have "2 powi (k + 1) \<le> x * 2" "x * 2 < 2 powi (k + 1 + 1)"
      using Suc.prems(1,2) powi_Suc [of k] powi_Suc [of "k + 1"] by linarith+
    moreover have "nat \<bar>k + 1\<bar> \<le> fuel" using Suc.prems(3) \<open>k < 0\<close> by simp
    ultimately have "normalise fuel (x * 2) (e - 1) = e - 1 + (k + 1)"
      by (rule Suc.IH)
    with 2 show ?thesis by simp
  next
    case 3
    have "k = 0"
    proof (rule ccontr)
      assume "k \<noteq> 0"
      then consider "1 \<le> k" | "k + 1 \<le> 0" by linarith
      then show False
      proof cases
        case 1
        then have "(2::real) powi 1 \<le> 2 powi k" by (intro power_int_increasing) auto
        with Suc.prems(1) 3 show False by simp
      next
        case 2
        then have "(2::real) powi (k + 1) \<le> 2 powi 0" by (intro power_int_increasing) auto
        with Suc.prems(2) 3 show False by simp
      qed
    qed
    with 3 show ?thesis by simp
  qed
qed

lemma fl_eq:
  assumes "2 powi k \<le> \<bar>x\<bar>" and "\<bar>x\<bar> < 2 powi (k + 1)" and "\<bar>k\<bar> \<le> 2200"
  shows "fl x = of_int (round_half_even (x / 2 powi (k - 52))) * 2 powi (k - 52)"
proof -
  have "exponent x = k"
    unfolding exponent_def using normalise_correct [OF assms(1,2), of 2200 0] assms(3) by simp
  moreover have "x \<noteq> 0"
  proof
    assume "x = 0"
    with assms(1) have "(2::real) powi k \<le> 0" by simp
    moreover have "(0::real) < 2 powi k" by (rule zero_less_power_int) simp
    ultimately show False by linarith
  qed
  ultimately show ?thesis by (simp add: fl_def Let_def)
qed

lemma fl_0: "fl 0 = 0"
  by (simp add: fl_def)

lemma fl_1: "fl 1 = 1"
  by (subst fl_eq [where k = 0]) (simp_all add: round_half_even_def)

lemma fsub_self: "fsub v v = 0"
  by (simp add: fsub_def fl_def)

lemma fsub_3_1: "fsub 3 1 = 2"
  unfolding fsub_def by (subst fl_eq [where k = 1]) (simp_all add: round_half_even_def)

lemma fsub_4_1: "fsub 4 1 = 3"
  unfolding fsub_def by (subst fl_eq [where k = 1]) (simp_all add: round_half_even_def)

lemma fsub_1_2: "fsub 1 2 = - 1"
  unfolding fsub_def by (subst fl_eq [where k = 0]) (simp_all add: round_half_even_def)

lemma fsub_3_2: "fsub 3 2 = 1"
  unfolding fsub_def by (subst fl_eq [where k = 0]) (simp_all add: round_half_even_def)

lemma fl_1e16: "fl (10 ^ 16) = 10 ^ 16"
  by (subst fl_eq [where k = 53]) (simp_all add: round_half_even_def)

lemma fsub_1_1e16: "fsub 1 (10 ^ 16) = - (10 ^ 16)"
  unfolding fsub_def by (subst fl_eq [where k = 53]) (simp_all add: round_half_even_def)

subsection \<open>Synchronized axes\<close>

lemma map_of_shift:
  "map_of (map (\<lambda>(fld, v). (fld, f v)) P) axis = map_option f (map_of P axis)"
  by (induction P) auto

lemma map_fst_shift:
  "map fst (map (\<lambda>(fld, v). (fld, f v)) P) = map fst P"
  by (induction P) auto

text \<open>
  With the axes at \<open>1e16\<close> and 1, both of them doubles, the offset cached for the
  second axis is \<open>-1e16\<close>, not \<open>1 - 1e16\<close>, which is no double; the combined
  position plus that offset is 0, not 1, whether the sum is exact or rounded.
\<close>

theorem save_offsets_not_exact:
  "fl (10 ^ 16) = 10 ^ 16 \<and> fl 1 = 1
   \<and> calc_combined [(''left'', 10 ^ 16), (''right'', 1)] = Inr (10 ^ 16)
   \<and> save_offsets calc_combined
        \<lparr>real_position = [(''left'', 10 ^ 16), (''right'', 1)], offsets = []\<rparr>
       = Inr \<lparr>real_position = [(''left'', 10 ^ 16), (''right'', 1)],
              offsets = [(''left'', 0), (''right'', - (10 ^ 16))]\<rparr>
   \<and> - (10 ^ 16) \<noteq> (1 :: real) - 10 ^ 16
   \<and> (10 ^ 16 :: real) + - (10 ^ 16) \<noteq> 1
   \<and> fadd (10 ^ 16) (- (10 ^ 16)) \<noteq> 1"
proof -
  have "save_offsets calc_combined
        \<lparr>real_position = [(''left'', 10 ^ 16), (''right'', 1)], offsets = []\<rparr>
       = Inr \<lparr>real_position = [(''left'', 10 ^ 16), (''right'', 1)],
              offsets = [(''left'', fsub (10 ^ 16) (10 ^ 16)), (''right'', fsub 1 (10 ^ 16))]\<rparr>"
    by (simp add: calc_combined_def save_offsets_def del: power_numeral)
  then have "save_offsets calc_combined
        \<lparr>real_position = [(''left'', 10 ^ 16), (''right'', 1)], offsets = []\<rparr>
       = Inr \<lparr>real_position = [(''left'', 10 ^ 16), (''right'', 1)],
              offsets = [(''left'', 0), (''right'', - (10 ^ 16))]\<rparr>"
    by (simp only: fsub_self fsub_1_1e16)
  moreover have "fadd (10 ^ 16) (- (10 ^ 16)) \<noteq> 1"
    by (simp add: fadd_def fl_0)
  moreover have "calc_combined [(''left'', 10 ^ 16), (''right'', 1)] = Inr (10 ^ 16)"
    by (simp add: calc_combined_def)
  moreover have "- (10 ^ 16) \<noteq> (1 :: real) - 10 ^ 16" and "(10 ^ 16 :: real) + - (10 ^ 16) \<noteq> 1"
    by simp_all
  ultimately show ?thesis
    using fl_1 fl_1e16 by blast
qed

text \<open>
  C2, amended. Whatever the combining function \<open>cc\<close> is, if it returns \<open>combo\<close> at
  the position the real axes are at, then \<open>save_offsets\<close> succeeds, leaves the axes
  where they are, and caches one offset for each real axis: the offset of an axis at
  \<open>v\<close> is the float difference of \<open>v\<close> and \<open>combo\<close>, the double nearest to
  \<open>v - combo\<close>. Where that difference is exact, \<open>combo\<close> plus the offset is
  \<open>v\<close>, and so is their float sum when \<open>v\<close> is a double.
\<close>

theorem save_offsets_cached:
  assumes "cc (real_position self) = Inr combo"
  shows "\<exists>self'. save_offsets cc self = Inr self'
           \<and> real_position self' = real_position self
           \<and> map fst (offsets self') = map fst (real_position self)
           \<and> (\<forall>axis v. map_of (real_position self) axis = Some v \<longrightarrow>
                 (\<exists>off. map_of (offsets self') axis = Some off
                     \<and> off = fsub v combo
                     \<and> (fsub v combo = v - combo \<longrightarrow>
                          combo + off = v \<and> (fl v = v \<longrightarrow> fadd combo off = v))))"
  using assms
  by (simp add: save_offsets_def Let_def map_of_shift map_fst_shift fadd_def del: map_map)

theorem save_offsets_cached_witness:
  "(\<lambda>pos. Inr (sum_list (map snd pos) / real (length pos)) :: exn + real)
       [(''left'', 1), (''right'', 3)] = Inr 2
   \<and> fsub 1 2 = 1 - 2 \<and> fl 1 = 1
   \<and> (\<exists>self'. save_offsets (\<lambda>pos. Inr (sum_list (map snd pos) / real (length pos)))
            \<lparr>real_position = [(''left'', 1), (''right'', 3)], offsets = []\<rparr> = Inr self'
          \<and> map_of (offsets self') ''left'' = Some (- 1)
          \<and> map_of (offsets self') ''right'' = Some 1
          \<and> fadd 2 (- 1) = 1)"
proof -
  let ?cc = "\<lambda>pos. Inr (sum_list (map snd pos) / real (length pos)) :: exn + real"
  let ?s = "\<lparr>real_position = [(''left'', 1), (''right'', 3)], offsets = []\<rparr>"
  have h: "?cc (real_position ?s) = Inr 2" by simp
  have exact: "fsub 1 2 = 1 - 2" by (simp add: fsub_1_2)
  from save_offsets_cached [of ?cc ?s 2] h obtain self' where
    sv: "save_offsets ?cc ?s = Inr self'"
    and all: "\<forall>axis v. map_of (real_position ?s) axis = Some v \<longrightarrow>
                 (\<exists>off. map_of (offsets self') axis = Some off
                     \<and> off = fsub v 2
                     \<and> (fsub v 2 = v - 2 \<longrightarrow>
                          2 + off = v \<and> (fl v = v \<longrightarrow> fadd 2 off = v)))"
    by blast
  from all [rule_format, of "''left''" 1] exact
  have left: "map_of (offsets self') ''left'' = Some (- 1)" and sum: "fadd 2 (- 1) = 1"
    by (simp_all add: fsub_1_2 fl_1)
  from all [rule_format, of "''right''" 3]
  have right: "map_of (offsets self') ''right'' = Some 1"
    by (simp add: fsub_3_2)
  from sv h exact left right sum show ?thesis by (simp add: fl_1)
qed

lemma RealPosition_shift:
  assumes "distinct (map fst P)"
  shows "RealPosition (map fst P) (map (\<lambda>(axis, off). (axis, f off)) P)
           = Inr (map (\<lambda>(axis, off). (axis, f off)) P)"
proof -
  have "\<And>a v. (a, v) \<in> set P \<Longrightarrow> map_of (map (\<lambda>(axis, off). (axis, f off)) P) a = Some (f v)"
    using assms by (simp add: map_of_shift)
  then have "map (\<lambda>fld. (fld, the (map_of (map (\<lambda>(axis, off). (axis, f off)) P) fld))) (map fst P)
               = map (\<lambda>(axis, off). (axis, f off)) P"
    by (auto simp: comp_def)
  then show ?thesis
    by (simp add: RealPosition_def map_fst_shift del: map_map)
qed

lemma forward_of_saved_offsets:
  assumes P0: "P0 \<noteq> []" "distinct (map fst P0)"
      and c0: "calc_combined P0 = Inr c0"
  shows "\<exists>r. RealPosition (map fst P0)
              (map (\<lambda>(axis, off). (axis, x + off)) (map (\<lambda>(fld, v). (fld, fsub v c0)) P0))
            = Inr r
          \<and> sync_inverse calc_combined r = Inr x"
proof -
  have eq: "map (\<lambda>(axis, off). (axis, x + off)) (map (\<lambda>(fld, v). (fld, fsub v c0)) P0)
          = map (\<lambda>(axis, v). (axis, x + fsub v c0)) P0"
    by (induction P0) auto
  obtain a v rest where P0_eq: "P0 = (a, v) # rest"
    using P0(1) by (cases P0) auto
  with c0 have "c0 = v" by (simp add: calc_combined_def)
  then have "sync_inverse calc_combined (map (\<lambda>(axis, v). (axis, x + fsub v c0)) P0) = Inr x"
    by (simp add: sync_inverse_def calc_combined_def P0_eq fsub_self)
  then show ?thesis
    using RealPosition_shift [OF P0(2), of "\<lambda>v. x + fsub v c0"] by (simp only: eq) blast
qed

text \<open>
  C3. With the \<open>calc_combined\<close> of the source and at least one real axis: if the
  offset cache is empty, or holds what an earlier \<open>save_offsets\<close> stored for the
  same axes, then \<open>forward\<close> of a pseudo value \<open>x\<close> returns a real position and
  \<open>inverse\<close> of that position is \<open>x\<close>. Over the real numbers the round trip is
  exact.
\<close>

theorem sync_round_trip:
  assumes "real_position s \<noteq> []" and "distinct (map fst (real_position s))"
      and "offsets s = [] \<or>
           (\<exists>s0 s1. map fst (real_position s0) = map fst (real_position s)
                \<and> save_offsets calc_combined s0 = Inr s1 \<and> offsets s = offsets s1)"
  shows "\<exists>r s'. sync_forward calc_combined s x = Inr (r, s')
            \<and> sync_inverse calc_combined r = Inr x"
  using assms(3)
proof
  assume empty: "offsets s = []"
  obtain c0 where c0: "calc_combined (real_position s) = Inr c0"
    using assms(1) by (cases "real_position s") (auto simp: calc_combined_def)
  from forward_of_saved_offsets [OF assms(1,2) c0, of x]
  show ?thesis
    using empty c0 by (auto simp: sync_forward_def save_offsets_def Let_def)
next
  assume "\<exists>s0 s1. map fst (real_position s0) = map fst (real_position s)
                \<and> save_offsets calc_combined s0 = Inr s1 \<and> offsets s = offsets s1"
  then obtain s0 s1 where flds: "map fst (real_position s0) = map fst (real_position s)"
    and sv: "save_offsets calc_combined s0 = Inr s1" and offs: "offsets s = offsets s1"
    by blast
  from sv obtain c0 where c0: "calc_combined (real_position s0) = Inr c0"
    and s1: "offsets s1 = map (\<lambda>(fld, v). (fld, fsub v c0)) (real_position s0)"
    by (auto simp: save_offsets_def Let_def split: sum.splits)
  have ne: "real_position s0 \<noteq> []" and d: "distinct (map fst (real_position s0))"
    using flds assms(1,2) by auto
  from forward_of_saved_offsets [OF ne d c0, of x]
  show ?thesis
    using offs s1 ne flds by (auto simp: sync_forward_def Let_def)
qed

theorem sync_round_trip_witness:
  "\<exists>r s'. sync_forward calc_combined
            \<lparr>real_position = [(''left'', 10), (''right'', 20)],
             offsets = [(''left'', 0), (''right'', 2)]\<rparr> 5 = Inr (r, s')
        \<and> sync_inverse calc_combined r = Inr 5"
proof -
  let ?s = "\<lparr>real_position = [(''left'', 10), (''right'', 20)],
             offsets = [(''left'', 0), (''right'', 2)]\<rparr>"
  let ?old = "\<lparr>real_position = [(''left'', 1), (''right'', 3)], offsets = []\<rparr>"
  let ?saved = "\<lparr>real_position = [(''left'', 1), (''right'', 3)],
              offsets = [(''left'', 0), (''right'', 2)]\<rparr>"
  have "map fst (real_position ?old) = map fst (real_position ?s)
          \<and> save_offsets calc_combined ?old = Inr ?saved
          \<and> offsets ?s = offsets ?saved"
    by (simp add: save_offsets_def calc_combined_def fsub_self fsub_3_1)
  then have "\<exists>s0 s1. map fst (real_position s0) = map fst (real_position ?s)
                \<and> save_offsets calc_combined s0 = Inr s1 \<and> offsets ?s = offsets s1"
    by (intro exI [of _ ?old] exI [of _ ?saved])
  then have cached: "offsets ?s = [] \<or>
           (\<exists>s0 s1. map fst (real_position s0) = map fst (real_position ?s)
                \<and> save_offsets calc_combined s0 = Inr s1 \<and> offsets ?s = offsets s1)"
    by (rule disjI2)
  have ne: "real_position ?s \<noteq> []" and d: "distinct (map fst (real_position ?s))"
    by simp_all
  show ?thesis
    by (rule sync_round_trip [of ?s 5, OF ne d cached])
qed

text \<open>
  With an empty cache \<open>forward\<close> is not pure: it stores offsets, and what it returns
  depends on where the real axes are.
\<close>

theorem sync_forward_not_pure:
  "sync_forward calc_combined \<lparr>real_position = [(''left'', 1), (''right'', 3)], offsets = []\<rparr> 5
     = Inr ([(''left'', 5), (''right'', 7)],
            \<lparr>real_position = [(''left'', 1), (''right'', 3)],
             offsets = [(''left'', 0), (''right'', 2)]\<rparr>)
   \<and> \<lparr>real_position = [(''left'', 1), (''right'', 3)], offsets = [(''left'', 0), (''right'', 2)]\<rparr>
       \<noteq> \<lparr>real_position = [(''left'', 1), (''right'', 3)], offsets = []\<rparr>
   \<and> sync_forward calc_combined \<lparr>real_position = [(''left'', 1), (''right'', 4)], offsets = []\<rparr> 5
     = Inr ([(''left'', 5), (''right'', 8)],
            \<lparr>real_position = [(''left'', 1), (''right'', 4)],
             offsets = [(''left'', 0), (''right'', 3)]\<rparr>)
   \<and> [(''left'', 5 :: real), (''right'', 8)] \<noteq> [(''left'', 5), (''right'', 7)]"
  by (simp add: sync_forward_def save_offsets_def calc_combined_def RealPosition_def
      fsub_self fsub_3_1 fsub_4_1)

lemma sync_forward_cached:
  "offsets s \<noteq> [] \<Longrightarrow>
   sync_forward cc s x =
     (case RealPosition (map fst (real_position s)) (map (\<lambda>(axis, offset). (axis, x + offset)) (offsets s)) of
        Inl e \<Rightarrow> Inl e | Inr r \<Rightarrow> Inr (r, s))"
  by (simp add: sync_forward_def)

text \<open>
  C10, amended. With a cache that is not empty, \<open>forward\<close> returns the state it was
  given, and its result depends neither on the readings of the real axes nor on the
  combining function. In every case a second call with the same argument, on the state
  the first call returned, gives the same result and changes nothing more.
\<close>

theorem sync_forward_frame:
  "(offsets s \<noteq> [] \<longrightarrow>
      (\<forall>r s'. sync_forward cc s x = Inr (r, s') \<longrightarrow> s' = s)
      \<and> (\<forall>(P :: position) cc'. map fst P = map fst (real_position s) \<longrightarrow>
             map_sum id fst (sync_forward cc' (s\<lparr>real_position := P\<rparr>) x)
               = map_sum id fst (sync_forward cc s x)))
   \<and> (\<forall>r s'. sync_forward cc s x = Inr (r, s') \<longrightarrow> sync_forward cc s' x = Inr (r, s'))"
proof (intro conjI impI allI)
  fix r s' assume "offsets s \<noteq> []" "sync_forward cc s x = Inr (r, s')"
  then show "s' = s" by (auto simp: sync_forward_cached split: sum.splits)
next
  fix P :: position and cc' assume "offsets s \<noteq> []" "map fst P = map fst (real_position s)"
  then show "map_sum id fst (sync_forward cc' (s\<lparr>real_position := P\<rparr>) x)
               = map_sum id fst (sync_forward cc s x)"
    by (simp add: sync_forward_cached split: sum.splits)
next
  fix r s' assume fw: "sync_forward cc s x = Inr (r, s')"
  show "sync_forward cc s' x = Inr (r, s')"
  proof (cases "offsets s = []")
    case False
    with fw have "s' = s" by (auto simp: sync_forward_cached split: sum.splits)
    with fw show ?thesis by simp
  next
    case True
    with fw obtain c where c: "cc (real_position s) = Inr c"
      and s': "s' = s\<lparr>offsets := map (\<lambda>(fld, v). (fld, fsub v c)) (real_position s)\<rparr>"
      by (auto simp: sync_forward_def save_offsets_def Let_def split: sum.splits)
    show ?thesis
    proof (cases "offsets s' = []")
      case True
      with \<open>offsets s = []\<close> s' have "s' = s" by simp
      with fw show ?thesis by simp
    next
      case False
      with fw True c s' show ?thesis
        by (auto simp: sync_forward_def save_offsets_def Let_def split: sum.splits)
    qed
  qed
qed

theorem sync_forward_frame_witness:
  "offsets \<lparr>real_position = [(''left'', 10), (''right'', 20)],
            offsets = [(''left'', 0), (''right'', 2)]\<rparr> \<noteq> []
   \<and> sync_forward calc_combined
        \<lparr>real_position = [(''left'', 10), (''right'', 20)],
         offsets = [(''left'', 0), (''right'', 2)]\<rparr> 5
       = Inr ([(''left'', 5), (''right'', 7)],
              \<lparr>real_position = [(''left'', 10), (''right'', 20)],
               offsets = [(''left'', 0), (''right'', 2)]\<rparr>)
   \<and> map_sum id fst (sync_forward calc_combined
        \<lparr>real_position = [(''left'', 1), (''right'', 3)],
         offsets = [(''left'', 0), (''right'', 2)]\<rparr> 5)
       = Inr [(''left'', 5), (''right'', 7)]"
proof -
  let ?s = "\<lparr>real_position = [(''left'', 10), (''right'', 20)],
            offsets = [(''left'', 0), (''right'', 2)]\<rparr>"
  let ?P = "[(''left'', 1), (''right'', 3)] :: position"
  have fw: "sync_forward calc_combined ?s 5 = Inr ([(''left'', 5), (''right'', 7)], ?s)"
    by (simp add: sync_forward_def RealPosition_def)
  have ne: "offsets ?s \<noteq> []" by simp
  have flds: "map fst ?P = map fst (real_position ?s)" by simp
  note frame = sync_forward_frame [of ?s calc_combined 5, THEN conjunct1, rule_format, OF ne]
  from frame [THEN conjunct2, rule_format, OF flds, of calc_combined]
  have "map_sum id fst (sync_forward calc_combined (?s\<lparr>real_position := ?P\<rparr>) 5)
               = map_sum id fst (sync_forward calc_combined ?s 5)" .
  then have "map_sum id fst (sync_forward calc_combined
        \<lparr>real_position = ?P, offsets = [(''left'', 0), (''right'', 2)]\<rparr> 5)
       = Inr [(''left'', 5), (''right'', 7)]"
    by (simp add: fw)
  with fw ne show ?thesis by simp
qed

subsection \<open>Optical delay\<close>

lemma unit_table_pos: "map_of unit_table u = Some (d, f) \<Longrightarrow> 0 < f"
  by (auto simp: unit_table_def split: if_splits)

lemma map_of_seconds: "map_of unit_table ''seconds'' = Some (Time, 1)"
  by (simp add: unit_table_def)

lemma map_of_meters: "map_of unit_table ''meters'' = Some (Length, 1)"
  by (simp add: unit_table_def)

text \<open>
  With a time unit on the delay axis, a length unit on the motor and a number of bounces
  other than zero, the inverse transform undoes the forward transform, for every delay.
\<close>

lemma delay_inverse_forward:
  assumes pu: "dimension_of (egu self) = Some Time"
      and mu: "dimension_of (motor_egu self) = Some Length"
      and n: "n_bounces self \<noteq> 0"
  shows "\<exists>m. delay_forward self d = Inr m \<and> delay_inverse self m = Inr d"
proof -
  from pu obtain fd where fd: "map_of unit_table (egu self) = Some (Time, fd)"
    by (auto simp: dimension_of_def)
  from mu obtain fm where fm: "map_of unit_table (motor_egu self) = Some (Length, fm)"
    by (auto simp: dimension_of_def)
  have "fd \<noteq> 0" and "fm \<noteq> 0"
    using unit_table_pos [OF fd] unit_table_pos [OF fm] by simp_all
  then show ?thesis
    using n
    by (simp add: delay_forward_def delay_inverse_def convert_unit_def py_truediv_def
        fd fm map_of_seconds map_of_meters speed_of_light_def Let_def)
qed

text \<open>
  C4. For every positive delay \<open>d\<close> and every positive number of bounces, whatever
  time unit the delay axis has and whatever length unit the motor has, \<open>forward\<close>
  returns a motor position and \<open>inverse\<close> of that position is \<open>d\<close>. Over the
  real numbers the round trip is exact.
\<close>

theorem delay_round_trip:
  assumes "0 < d" and "0 < n_bounces self"
      and "dimension_of (egu self) = Some Time"
      and "dimension_of (motor_egu self) = Some Length"
  shows "\<exists>m. delay_forward self d = Inr m \<and> delay_inverse self m = Inr d"
  using delay_inverse_forward [of self d] assms by simp

theorem delay_round_trip_witness:
  "(0::real) < 3 \<and> 0 < n_bounces \<lparr>egu = ''ps'', n_bounces = 4, motor_egu = ''um''\<rparr>
   \<and> dimension_of ''ps'' = Some Time \<and> dimension_of ''um'' = Some Length
   \<and> (\<exists>m. delay_forward \<lparr>egu = ''ps'', n_bounces = 4, motor_egu = ''um''\<rparr> 3 = Inr m
          \<and> delay_inverse \<lparr>egu = ''ps'', n_bounces = 4, motor_egu = ''um''\<rparr> m = Inr 3)"
  using delay_round_trip [of 3 "\<lparr>egu = ''ps'', n_bounces = 4, motor_egu = ''um''\<rparr>"]
  by (simp add: dimension_of_def unit_table_def)

text \<open>
  C5. A delay stage built with \<open>n_bounces = 2\<close> and the unit \<open>s\<close>, on a motor in
  millimeters, maps a delay of one nanosecond to \<open>(1e-9 * 299792458 / 2) * 1000\<close>
  millimeters, which is \<open>149.896229\<close> and lies within a micrometer of \<open>149.896\<close>.
\<close>

theorem delay_forward_one_nanosecond:
  "DelayBase_init SimDelayStage (Some ''s'') (Some 2) (Inr ''mm'')
     = Inr \<lparr>egu = ''s'', n_bounces = 2, motor_egu = ''mm''\<rparr>
   \<and> delay_forward \<lparr>egu = ''s'', n_bounces = 2, motor_egu = ''mm''\<rparr> (1 / 10 ^ 9)
       = Inr ((1 / 10 ^ 9 * 299792458 / 2) * 1000)
   \<and> (1 / 10 ^ 9 * 299792458 / 2) * 1000 = (149.896229 :: real)
   \<and> \<bar>(1 / 10 ^ 9 * 299792458 / 2) * 1000 - (149.896 :: real)\<bar> < 1 / 1000"
  by (simp add: DelayBase_init_def delay_forward_def convert_unit_def py_truediv_def
      unit_table_def speed_of_light_def)

subsection \<open>Lookup table\<close>

text \<open>
  The interpolation does not extrapolate: below the first of increasing sample points it
  gives the first value, and at or above every sample point the last value.
\<close>

lemma interp_from_above:
  "length fp = length xp \<Longrightarrow> xp \<noteq> [] \<Longrightarrow> \<forall>x' \<in> set xp. x' \<le> x \<Longrightarrow>
     interp_from x xp fp = last fp"
proof (induction xp arbitrary: fp)
  case Nil
  then show ?case by simp
next
  case (Cons x0 rest)
  from Cons.prems(1) obtain y0 ys where fp: "fp = y0 # ys" and len: "length ys = length rest"
    by (cases fp) auto
  show ?case
  proof (cases rest)
    case Nil
    with fp len show ?thesis by simp
  next
    case (Cons x1 more)
    with len obtain y1 zs where ys: "ys = y1 # zs" by (cases ys) auto
    from Cons.prems(3) Cons have "\<not> x < x1" and "\<forall>x' \<in> set rest. x' \<le> x" by auto
    with Cons.IH [of ys] len Cons fp ys show ?thesis by simp
  qed
qed

lemma np_interp_below:
  assumes "length fp = length xp" and "xp \<noteq> []" and "sorted xp" and "x < hd xp"
  shows "np_interp x xp fp = Inr (hd fp)"
proof -
  from assms(2) obtain x0 rest where xp: "xp = x0 # rest" by (cases xp) auto
  have "hd xp \<le> last xp"
  proof (cases "rest = []")
    case True
    with xp show ?thesis by simp
  next
    case False
    then have "last rest \<in> set rest" by simp
    with assms(3) xp False show ?thesis by auto
  qed
  with assms(4) have "\<not> last xp < x" by simp
  with assms(1,2,4) show ?thesis
    by (cases xp) (simp_all add: np_interp_def)
qed

lemma np_interp_above:
  assumes "length fp = length xp" and "xp \<noteq> []" and "\<forall>x' \<in> set xp. x' \<le> x"
  shows "np_interp x xp fp = Inr (last fp)"
proof -
  from assms(2) obtain x0 rest where xp: "xp = x0 # rest" by (cases xp) auto
  with assms(3) have "\<not> x < x0" by auto
  with xp assms(1) interp_from_above [OF assms] show ?thesis
    by (simp add: np_interp_def del: last.simps)
qed

lemma init_example: "LookupTablePositioner_init [''real''] [''pseudo'']
          [(''pseudo'', PseudoSingle (0, 0)), (''real'', WithLimits (0, 0) None)]
          \<lparr>shape = [4, 2], buffer = [0, 0, 1, 10, 2, 20, 3, 30]\<rparr> [''real'', ''pseudo'']
  = Inr \<lparr>real_attrs = [''real''], pseudo_attrs = [''pseudo''],
          components = [(''pseudo'', PseudoSingle (0, 30)), (''real'', WithLimits (0, 3) None)],
          table = \<lparr>shape = [4, 2], buffer = [0, 0, 1, 10, 2, 20, 3, 30]\<rparr>,
          column_names = [''real'', ''pseudo''],
          table_data_by_name = [(''real'', [0, 1, 2, 3]), (''pseudo'', [0, 10, 20, 30])],
          debug_log = []\<rparr>"
  by code_simp

lemma forward_example:
  "lookup_forward \<lparr>real_attrs = [''real''], pseudo_attrs = [''pseudo''],
          components = cs, table = t, column_names = cn,
          table_data_by_name = [(''real'', [0, 1, 2, 3]), (''pseudo'', [0, 10, 20, 30])],
          debug_log = lg\<rparr> [(''pseudo'', x)]
   = Inr [(''real'', if 30 < x then 3 else if x < 0 then 0 else if x < 10 then (if 0 = x then 0 else (1 - 0) / (10 - 0) * (x - 0) + 0)
                     else if x < 20 then (if 10 = x then 1 else (2 - 1) / (20 - 10) * (x - 10) + 1)
                     else if x < 30 then (if 20 = x then 2 else (3 - 2) / (30 - 20) * (x - 20) + 2)
                     else 3)]"
  by (simp add: lookup_forward_def unpack1_def getitem_def np_interp_def)

lemma inverse_example:
  "lookup_inverse \<lparr>real_attrs = [''real''], pseudo_attrs = [''pseudo''],
          components = cs, table = t, column_names = cn,
          table_data_by_name = [(''real'', [0, 1, 2, 3]), (''pseudo'', [0, 10, 20, 30])],
          debug_log = lg\<rparr> [(''real'', x)]
   = Inr [(''pseudo'', if 3 < x then 30 else if x < 0 then 0 else if x < 1 then (if 0 = x then 0 else (10 - 0) / (1 - 0) * (x - 0) + 0)
                     else if x < 2 then (if 1 = x then 10 else (20 - 10) / (2 - 1) * (x - 1) + 10)
                     else if x < 3 then (if 2 = x then 20 else (30 - 20) / (3 - 2) * (x - 2) + 20)
                     else 30)]"
  by (simp add: lookup_inverse_def unpack1_def getitem_def np_interp_def)

text \<open>
  C1. The positioner built from the table with the columns \<open>real = [0, 1, 2, 3]\<close> and
  \<open>pseudo = [0, 10, 20, 30]\<close>: \<open>forward\<close> of 15 is 1.5, \<open>inverse\<close> of 2.5 is 25,
  \<open>forward\<close> of -5 is 0 and of 35 is 3; and \<open>forward\<close> of anything at or below
  the first sample is 0, of anything at or above the last sample 3.
\<close>

theorem lookup_table_example:
  "\<exists>self. LookupTablePositioner_init [''real''] [''pseudo'']
             [(''pseudo'', PseudoSingle (0, 0)), (''real'', WithLimits (0, 0) None)]
             \<lparr>shape = [4, 2], buffer = [0, 0, 1, 10, 2, 20, 3, 30]\<rparr> [''real'', ''pseudo'']
           = Inr self
     \<and> table_data_by_name self = [(''real'', [0, 1, 2, 3]), (''pseudo'', [0, 10, 20, 30])]
     \<and> lookup_forward self [(''pseudo'', 15)] = Inr [(''real'', 1.5)]
     \<and> lookup_inverse self [(''real'', 2.5)] = Inr [(''pseudo'', 25)]
     \<and> lookup_forward self [(''pseudo'', - 5)] = Inr [(''real'', 0)]
     \<and> lookup_forward self [(''pseudo'', 35)] = Inr [(''real'', 3)]
     \<and> (\<forall>x. x \<le> 0 \<longrightarrow> lookup_forward self [(''pseudo'', x)] = Inr [(''real'', 0)])
     \<and> (\<forall>x. 30 \<le> x \<longrightarrow> lookup_forward self [(''pseudo'', x)] = Inr [(''real'', 3)])"
  by (simp add: init_example forward_example inverse_example)

theorem lookup_table_example_witness:
  "\<exists>self. LookupTablePositioner_init [''real''] [''pseudo'']
             [(''pseudo'', PseudoSingle (0, 0)), (''real'', WithLimits (0, 0) None)]
             \<lparr>shape = [4, 2], buffer = [0, 0, 1, 10, 2, 20, 3, 30]\<rparr> [''real'', ''pseudo'']
           = Inr self
     \<and> lookup_forward self [(''pseudo'', - 7)] = Inr [(''real'', 0)]
     \<and> lookup_forward self [(''pseudo'', 100)] = Inr [(''real'', 3)]"
proof -
  from lookup_table_example obtain self where
    init: "LookupTablePositioner_init [''real''] [''pseudo'']
             [(''pseudo'', PseudoSingle (0, 0)), (''real'', WithLimits (0, 0) None)]
             \<lparr>shape = [4, 2], buffer = [0, 0, 1, 10, 2, 20, 3, 30]\<rparr> [''real'', ''pseudo'']
           = Inr self"
    and lo: "\<forall>x. x \<le> 0 \<longrightarrow> lookup_forward self [(''pseudo'', x)] = Inr [(''real'', 0)]"
    and hi: "\<forall>x. 30 \<le> x \<longrightarrow> lookup_forward self [(''pseudo'', x)] = Inr [(''real'', 3)]"
    by blast
  from lo have "lookup_forward self [(''pseudo'', - 7)] = Inr [(''real'', 0)]" by simp
  moreover from hi have "lookup_forward self [(''pseudo'', 100)] = Inr [(''real'', 3)]" by simp
  ultimately show ?thesis using init by blast
qed

text \<open>
  C6. A table that is a scalar array has the empty shape. With all axes among the column
  names, the construction then raises \<open>IndexError\<close> at \<open>table.shape[-1]\<close>, before it
  reaches the test of the number of dimensions.
\<close>

theorem init_scalar_table:
  "LookupTablePositioner_init [''real''] [''pseudo''] comps \<lparr>shape = [], buffer = [1]\<rparr>
      [''real'', ''pseudo''] = Inl IndexError"
  by (simp add: LookupTablePositioner_init_def missing_names_def)

text \<open>
  The other checks of the construction: a missing axis gives a \<open>ValueError\<close> that
  carries exactly the axes that are not among the column names, and a table with at least
  one dimension that is not two-dimensional, or whose last dimension is not the number of
  column names, gives a \<open>ValueError\<close>.
\<close>

lemma missing_names_fold:
  "fold (\<lambda>a missing. if a \<notin> set col_names then insert a missing else missing) attr_names acc
     = acc \<union> {a \<in> set attr_names. a \<notin> set col_names}"
  by (induction attr_names arbitrary: acc) auto

lemma missing_names_eq:
  "missing_names attr_names col_names = {a \<in> set attr_names. a \<notin> set col_names}"
  by (simp add: missing_names_def missing_names_fold)

lemma init_missing:
  assumes "a \<in> set (reals @ pseudos)" and "a \<notin> set col_names"
  shows "LookupTablePositioner_init reals pseudos comps t col_names
           = Inl (ValueError (PositionersNotPresent {a \<in> set (reals @ pseudos). a \<notin> set col_names}))"
proof -
  from assms have "missing_names (reals @ pseudos) col_names \<noteq> {}"
    unfolding missing_names_eq by blast
  then show ?thesis
    by (simp add: LookupTablePositioner_init_def Let_def) (simp add: missing_names_eq)
qed

lemma init_bad_table:
  assumes "shape t \<noteq> []"
      and "length (shape t) \<noteq> 2 \<or> length col_names \<noteq> last (shape t)"
  shows "\<exists>ve. LookupTablePositioner_init reals pseudos comps t col_names = Inl (ValueError ve)"
  using assms by (auto simp: LookupTablePositioner_init_def Let_def)






































end
